theory Spec2Isabelle
  imports Complex_Main "HOL-Library.Multiset"
begin

section \<open>Data model (schema.py)\<close>

text \<open>
  The four enumerations of \<^verbatim>\<open>schema.py\<close>. They derive from the plain
  \<^verbatim>\<open>enum.Enum\<close>, not from \<^verbatim>\<open>str\<close> or \<^verbatim>\<open>int\<close>: a member is equal only
  to itself, never to the string or number it was declared with, and members are not
  ordered.
\<close>

datatype LocationType = REMOTE | HYBRID | ON_SITE

datatype SkillLevel = BEGINNER | INTERMEDIATE | ADVANCED | EXPERT

datatype CareerPreference = UPWARD_MOBILITY | LATERAL_MOVE | CAREER_CHANGE

datatype Availability = IMMEDIATE | WITHIN_1_MONTH | WITHIN_3_MONTHS

text \<open>
  Python is dynamically typed and every column of the schema is nullable, so an attribute
  of a row holds some Python value. \<open>pyval\<close> is the universe of values the model
  follows: \<^verbatim>\<open>None\<close>, integers (unbounded), strings, the float infinity
  \<^verbatim>\<open>float('inf')\<close> and the members of the four enumerations. On this universe Python's
  \<^verbatim>\<open>==\<close> is equality of \<open>pyval\<close>: values of different kinds are never equal, and the
  infinity equals itself. The infinity is the one float that is kept: it is a value of a
  numeric type that \<^verbatim>\<open>int\<close> rejects with an exception other than \<^verbatim>\<open>TypeError\<close> and
  \<^verbatim>\<open>ValueError\<close>.
\<close>

datatype pyval =
    PNone
  | PInt int
  | PStr string
  | PFloatInf
  | PLocationType LocationType
  | PSkillLevel SkillLevel
  | PCareerPreference CareerPreference
  | PAvailability Availability

datatype py_error = TypeError | ValueError | OverflowError

text \<open>
  The mapped classes. The primary key \<^verbatim>\<open>id\<close> is written \<open>skill_id\<close>, \<open>job_id\<close>,
  \<open>candidate_id\<close> (the names of the junction tables' columns); the timestamp column
  \<^verbatim>\<open>created_at\<close> is filled by the database server and read by nothing below, and is left
  out. The relationship \<^verbatim>\<open>skills\<close> is the list of associated \<open>Skill\<close> rows.
\<close>

record Skill =
  skill_id :: pyval
  skill_type :: pyval
  skill_group :: pyval
  skill_level :: pyval

record Job =
  job_id :: pyval
  title :: pyval
  required_experience :: pyval
  location_type :: pyval
  salary_min :: pyval
  salary_max :: pyval
  availability :: pyval
  career_preference :: pyval
  skills :: "Skill list"

record Candidate =
  candidate_id :: pyval
  username :: pyval
  total_experience :: pyval
  preferred_location :: pyval
  expected_salary_min :: pyval
  expected_salary_max :: pyval
  career_preference :: pyval
  skills :: "Skill list"

section \<open>The Python operations the scorer applies\<close>

subsection \<open>\<^verbatim>\<open>int(x)\<close>\<close>


definition py_isspace :: "char \<Rightarrow> bool" where
  "py_isspace c = ((of_char c :: nat) \<in> {9, 10, 11, 12, 13, 32})"

definition py_isdigit :: "char \<Rightarrow> bool" where
  "py_isdigit c = (48 \<le> (of_char c :: nat) \<and> (of_char c :: nat) \<le> 57)"

definition digit_value :: "char \<Rightarrow> int" where
  "digit_value c = int (of_char c) - 48"

text \<open>
  \<open>parse_digits need acc cs\<close>: \<open>need\<close> says that the next character has to be a digit
  (at the start and after an underscore).
\<close>

fun parse_digits :: "bool \<Rightarrow> int \<Rightarrow> string \<Rightarrow> int option" where
  "parse_digits need acc [] = (if need then None else Some acc)"
| "parse_digits need acc (c # cs) =
     (if py_isdigit c then parse_digits False (acc * 10 + digit_value c) cs
      else if c = CHR ''_'' \<and> \<not> need then parse_digits True acc cs
      else None)"

definition py_strip :: "string \<Rightarrow> string" where
  "py_strip s = rev (dropWhile py_isspace (rev (dropWhile py_isspace s)))"

definition max_str_digits :: nat where
  "max_str_digits = 4300"

definition parse_unsigned :: "string \<Rightarrow> int option" where
  "parse_unsigned cs =
     (if length (filter py_isdigit cs) > max_str_digits then None
      else parse_digits True 0 cs)"

definition parse_int :: "string \<Rightarrow> int option" where
  "parse_int s =
     (case py_strip s of
        [] \<Rightarrow> None
      | c # cs \<Rightarrow>
          if c = CHR ''-'' then map_option uminus (parse_unsigned cs)
          else if c = CHR ''+'' then parse_unsigned cs
          else parse_unsigned (c # cs))"

fun py_int :: "pyval \<Rightarrow> py_error + int" where
  "py_int (PInt n) = Inr n"
| "py_int (PStr s) = (case parse_int s of None \<Rightarrow> Inl ValueError | Some n \<Rightarrow> Inr n)"
| "py_int PFloatInf = Inl OverflowError"
| "py_int _ = Inl TypeError"

subsection \<open>Comparison and addition\<close>

text \<open>
  \<^verbatim>\<open><=\<close> and \<^verbatim>\<open>>=\<close> are defined between two numbers (integers and the infinity,
  which is above every integer) and between two strings (lexicographic on the characters'
  codes); every other pair of operands raises \<^verbatim>\<open>TypeError\<close>. Adding the integer
  literal to an integer gives an integer and to the infinity the infinity; adding it to
  anything else raises \<^verbatim>\<open>TypeError\<close>.
\<close>

fun str_le :: "string \<Rightarrow> string \<Rightarrow> bool" where
  "str_le [] ys = True"
| "str_le (x # xs) [] = False"
| "str_le (x # xs) (y # ys) =
     (if x = y then str_le xs ys else (of_char x :: nat) < of_char y)"

fun py_le :: "pyval \<Rightarrow> pyval \<Rightarrow> py_error + bool" where
  "py_le (PInt a) (PInt b) = Inr (a \<le> b)"
| "py_le (PInt a) PFloatInf = Inr True"
| "py_le PFloatInf (PInt b) = Inr False"
| "py_le PFloatInf PFloatInf = Inr True"
| "py_le (PStr a) (PStr b) = Inr (str_le a b)"
| "py_le _ _ = Inl TypeError"

fun py_ge :: "pyval \<Rightarrow> pyval \<Rightarrow> py_error + bool" where
  "py_ge (PInt a) (PInt b) = Inr (a \<ge> b)"
| "py_ge (PInt a) PFloatInf = Inr False"
| "py_ge PFloatInf (PInt b) = Inr True"
| "py_ge PFloatInf PFloatInf = Inr True"
| "py_ge (PStr a) (PStr b) = Inr (str_le b a)"
| "py_ge _ _ = Inl TypeError"

fun py_add_int :: "pyval \<Rightarrow> int \<Rightarrow> py_error + pyval" where
  "py_add_int (PInt a) n = Inr (PInt (a + n))"
| "py_add_int PFloatInf n = Inr PFloatInf"
| "py_add_int _ n = Inl TypeError"

section \<open>The scorer: \<^verbatim>\<open>calculate_matching_score\<close> (app.py)\<close>

text \<open>
  The function is a sequence of assignments to local variables followed by the sum of
  four of them. Each local variable is a definition of the same name. Python's floats are
  read as real numbers: every product below is taken exactly.
\<close>

subsection \<open>Skill matching\<close>

definition job_skills :: "Job \<Rightarrow> (pyval \<times> pyval) set" where
  "job_skills job = set (map (\<lambda>s. (skill_group s, skill_level s)) (Job.skills job))"

definition candidate_skills :: "Candidate \<Rightarrow> (pyval \<times> pyval) set" where
  "candidate_skills candidate =
     set (map (\<lambda>s. (skill_group s, skill_level s)) (Candidate.skills candidate))"

definition full_matches :: "Job \<Rightarrow> Candidate \<Rightarrow> int" where
  "full_matches job candidate = int (card (job_skills job \<inter> candidate_skills candidate))"

definition partial_matches :: "Job \<Rightarrow> Candidate \<Rightarrow> int" where
  "partial_matches job candidate =
     int (card (fst ` job_skills job \<inter> fst ` candidate_skills candidate))
       - full_matches job candidate"

definition raw_skill_score :: "Job \<Rightarrow> Candidate \<Rightarrow> int" where
  "raw_skill_score job candidate =
     full_matches job candidate * 10 + partial_matches job candidate * 5"

definition skill_score :: "Job \<Rightarrow> Candidate \<Rightarrow> real" where
  "skill_score job candidate = real_of_int (raw_skill_score job candidate) * 0.4"

subsection \<open>Experience\<close>

text \<open>
  The body of the \<^verbatim>\<open>try\<close>: a value that is \<^verbatim>\<open>None\<close> counts as 0 and is not
  converted; the candidate's value is converted first.
\<close>

definition int_or_zero :: "pyval \<Rightarrow> py_error + int" where
  "int_or_zero v = (if v \<noteq> PNone then py_int v else Inr 0)"

definition exp_try :: "Job \<Rightarrow> Candidate \<Rightarrow> py_error + real" where
  "exp_try job candidate =
     (case int_or_zero (total_experience candidate) of
        Inl e \<Rightarrow> Inl e
      | Inr candidate_exp \<Rightarrow>
          (case int_or_zero (required_experience job) of
             Inl e \<Rightarrow> Inl e
           | Inr job_exp \<Rightarrow>
               Inr (if candidate_exp \<ge> job_exp then 10 * 0.3 else - 5 * 0.3)))"

text \<open>
  The handler \<^verbatim>\<open>except (TypeError, ValueError)\<close>: the two named exceptions give the
  penalty, any other one (\<^verbatim>\<open>OverflowError\<close>) leaves the function.
\<close>

definition exp_score :: "Job \<Rightarrow> Candidate \<Rightarrow> py_error + real" where
  "exp_score job candidate =
     (case exp_try job candidate of
        Inr v \<Rightarrow> Inr v
      | Inl e \<Rightarrow> if e = TypeError \<or> e = ValueError then Inr (- 5 * 0.3) else Inl e)"

subsection \<open>Career preference\<close>

definition career_score :: "Job \<Rightarrow> Candidate \<Rightarrow> real" where
  "career_score job candidate =
     (if Job.career_preference job = Candidate.career_preference candidate
      then 10 * 0.2 else - 10 * 0.2)"

subsection \<open>Location and salary\<close>

text \<open>
  The second test of the location is \<^verbatim>\<open>"Hybrid" in [job.location_type,
  candidate.preferred_location]\<close>: membership of the string \<^verbatim>\<open>"Hybrid"\<close> in the list of the
  two attribute values, decided by \<^verbatim>\<open>==\<close>.
\<close>

definition location_score :: "Job \<Rightarrow> Candidate \<Rightarrow> int" where
  "location_score job candidate =
     (if location_type job = preferred_location candidate then 10
      else if PStr ''Hybrid'' \<in> set [location_type job, preferred_location candidate] then 5
      else 0)"

text \<open>\<^verbatim>\<open>and\<close> evaluates its right operand only when the left one is true.\<close>

definition salary_overlap :: "Job \<Rightarrow> Candidate \<Rightarrow> py_error + bool" where
  "salary_overlap job candidate =
     (case py_le (expected_salary_min candidate) (salary_max job) of
        Inl e \<Rightarrow> Inl e
      | Inr b \<Rightarrow>
          if b then py_ge (expected_salary_max candidate) (salary_min job) else Inr False)"

definition salary_score :: "Job \<Rightarrow> Candidate \<Rightarrow> py_error + int" where
  "salary_score job candidate =
     (case salary_overlap job candidate of
        Inl e \<Rightarrow> Inl e
      | Inr ov \<Rightarrow>
          if ov then Inr 10
          else (case py_add_int (salary_max job) 20000 of
                  Inl e \<Rightarrow> Inl e
                | Inr bound \<Rightarrow>
                    (case py_le (expected_salary_min candidate) bound of
                       Inl e \<Rightarrow> Inl e
                     | Inr b \<Rightarrow> Inr (if b then 5 else 0))))"

definition location_salary_score :: "Job \<Rightarrow> Candidate \<Rightarrow> py_error + real" where
  "location_salary_score job candidate =
     (case salary_score job candidate of
        Inl e \<Rightarrow> Inl e
      | Inr s \<Rightarrow> Inr (real_of_int (location_score job candidate + s) * 0.05))"

subsection \<open>The sum\<close>

definition calculate_matching_score :: "Job \<Rightarrow> Candidate \<Rightarrow> py_error + real" where
  "calculate_matching_score job candidate =
     (case exp_score job candidate of
        Inl e \<Rightarrow> Inl e
      | Inr es \<Rightarrow>
          (case location_salary_score job candidate of
             Inl e \<Rightarrow> Inl e
           | Inr ls \<Rightarrow>
               Inr (skill_score job candidate + es + career_score job candidate + ls)))"

section \<open>The ranker: the match lists of the two portals (app.py)\<close>

text \<open>
  Both portals run the same four steps: \<^verbatim>\<open>matches = []\<close>; a loop that scores every
  row and appends the pair \<^verbatim>\<open>(row, score)\<close>; \<^verbatim>\<open>matches.sort(key=lambda x: x[1],
  reverse=True)\<close>; and the slice \<^verbatim>\<open>matches[:5]\<close>. An exception of the scorer leaves the
  loop at once.
\<close>

fun collect_matches ::
  "('a \<Rightarrow> py_error + 's) \<Rightarrow> 'a list \<Rightarrow> ('a \<times> 's) list \<Rightarrow> py_error + ('a \<times> 's) list" where
  "collect_matches scorer [] matches = Inr matches"
| "collect_matches scorer (x # xs) matches =
     (case scorer x of
        Inl e \<Rightarrow> Inl e
      | Inr score \<Rightarrow> collect_matches scorer xs (matches @ [(x, score)]))"

text \<open>
  \<^verbatim>\<open>list.sort\<close> is stable and compares the keys only. With \<^verbatim>\<open>reverse=True\<close> it
  reverses the list, sorts it in ascending order and reverses the result, which keeps
  elements with equal keys in their original order.
\<close>

definition sort_reverse :: "('a \<Rightarrow> 'k::linorder) \<Rightarrow> 'a list \<Rightarrow> 'a list" where
  "sort_reverse key xs = rev (sort_key key (rev xs))"

text \<open>The slice \<^verbatim>\<open>xs[:k]\<close>: a negative \<open>k\<close> counts from the end.\<close>

definition slice_to :: "'a list \<Rightarrow> int \<Rightarrow> 'a list" where
  "slice_to xs k = (if k < 0 then take (length xs - nat (- k)) xs else take (nat k) xs)"

definition rank ::
  "('a \<Rightarrow> py_error + 's::linorder) \<Rightarrow> 'a list \<Rightarrow> int \<Rightarrow> py_error + ('a \<times> 's) list" where
  "rank scorer entities top_k =
     (case collect_matches scorer entities [] of
        Inl e \<Rightarrow> Inl e
      | Inr matches \<Rightarrow> Inr (slice_to (sort_reverse snd matches) top_k))"

text \<open>The candidate portal ranks the jobs for a new candidate, the employer portal the
  candidates for a new job; both show five matches.\<close>

definition top_job_matches :: "Candidate \<Rightarrow> Job list \<Rightarrow> py_error + (Job \<times> real) list" where
  "top_job_matches new_candidate jobs =
     rank (\<lambda>job. calculate_matching_score job new_candidate) jobs 5"

definition top_candidate_matches ::
  "Job \<Rightarrow> Candidate list \<Rightarrow> py_error + (Candidate \<times> real) list" where
  "top_candidate_matches new_job candidates =
     rank (\<lambda>candidate. calculate_matching_score new_job candidate) candidates 5"

section \<open>The documented input domain\<close>

text \<open>
  The values the portals store: experience a non-negative integer, the location, career
  preference and availability members of their enumerations, the salaries integers with
  minimum at most maximum, and at least one skill, each with a string as its group and a
  \<open>SkillLevel\<close> as its level.
\<close>

fun is_nonneg_int :: "pyval \<Rightarrow> bool" where
  "is_nonneg_int (PInt n) = (0 \<le> n)"
| "is_nonneg_int _ = False"

fun is_str :: "pyval \<Rightarrow> bool" where
  "is_str (PStr s) = True"
| "is_str _ = False"

fun is_location :: "pyval \<Rightarrow> bool" where
  "is_location (PLocationType l) = True"
| "is_location _ = False"

fun is_level :: "pyval \<Rightarrow> bool" where
  "is_level (PSkillLevel l) = True"
| "is_level _ = False"

fun is_career :: "pyval \<Rightarrow> bool" where
  "is_career (PCareerPreference p) = True"
| "is_career _ = False"

fun is_availability :: "pyval \<Rightarrow> bool" where
  "is_availability (PAvailability a) = True"
| "is_availability _ = False"

fun int_range :: "pyval \<Rightarrow> pyval \<Rightarrow> bool" where
  "int_range (PInt lo) (PInt hi) = (lo \<le> hi)"
| "int_range _ _ = False"

definition valid_skill :: "Skill \<Rightarrow> bool" where
  "valid_skill s = (is_str (skill_group s) \<and> is_level (skill_level s))"

definition valid_job :: "Job \<Rightarrow> bool" where
  "valid_job job =
     (is_nonneg_int (required_experience job) \<and> is_location (location_type job) \<and>
      int_range (salary_min job) (salary_max job) \<and> is_availability (availability job) \<and>
      is_career (Job.career_preference job) \<and>
      Job.skills job \<noteq> [] \<and> list_all valid_skill (Job.skills job))"

definition valid_candidate :: "Candidate \<Rightarrow> bool" where
  "valid_candidate candidate =
     (is_nonneg_int (total_experience candidate) \<and>
      is_location (preferred_location candidate) \<and>
      int_range (expected_salary_min candidate) (expected_salary_max candidate) \<and>
      is_career (Candidate.career_preference candidate) \<and>
      Candidate.skills candidate \<noteq> [] \<and> list_all valid_skill (Candidate.skills candidate))"

section \<open>Kinds of experience values\<close>



definition int_overflows :: "pyval \<Rightarrow> bool" where
  "int_overflows v = (v \<noteq> PNone \<and> py_int v = Inl OverflowError)"

fun is_int :: "pyval \<Rightarrow> bool" where
  "is_int (PInt n) = True"
| "is_int _ = False"

definition int_salaries :: "Job \<Rightarrow> Candidate \<Rightarrow> bool" where
  "int_salaries job candidate =
     (is_int (salary_min job) \<and> is_int (salary_max job) \<and>
      is_int (expected_salary_min candidate) \<and> is_int (expected_salary_max candidate))"

section \<open>Example rows\<close>

definition python_skill :: "SkillLevel \<Rightarrow> Skill" where
  "python_skill level =
     \<lparr>skill_id = PInt 1, skill_type = PStr ''Programming'',
      skill_group = PStr ''Python'', skill_level = PSkillLevel level\<rparr>"

definition example_job :: Job where
  "example_job =
     \<lparr>job_id = PInt 1, title = PStr ''Engineer'', required_experience = PInt 3,
      location_type = PLocationType ON_SITE, salary_min = PInt 80000,
      salary_max = PInt 120000, availability = PAvailability IMMEDIATE,
      career_preference = PCareerPreference UPWARD_MOBILITY,
      skills = [python_skill ADVANCED]\<rparr>"

definition example_candidate :: Candidate where
  "example_candidate =
     \<lparr>candidate_id = PInt 1, username = PStr ''anon'', total_experience = PInt 5,
      preferred_location = PLocationType ON_SITE, expected_salary_min = PInt 90000,
      expected_salary_max = PInt 110000,
      career_preference = PCareerPreference UPWARD_MOBILITY,
      skills = [python_skill ADVANCED]\<rparr>"

definition example_candidates :: "Candidate list" where
  "example_candidates =
     [example_candidate\<lparr>candidate_id := PInt 2, total_experience := PInt 1\<rparr>,
      example_candidate,
      example_candidate\<lparr>candidate_id := PInt 3, username := PStr ''anon3''\<rparr>]"

definition example_jobs :: "Job list" where
  "example_jobs =
     [example_job,
      example_job\<lparr>job_id := PInt 2, location_type := PLocationType HYBRID\<rparr>,
      example_job\<lparr>job_id := PInt 3, required_experience := PInt 7\<rparr>,
      example_job\<lparr>job_id := PInt 4\<rparr>,
      example_job\<lparr>job_id := PInt 5, location_type := PLocationType REMOTE\<rparr>,
      example_job\<lparr>job_id := PInt 6,
        Job.career_preference := PCareerPreference LATERAL_MOVE\<rparr>]"

section \<open>Rows that differ in attributes the scorer does not read\<close>

text \<open>
  Two skills that agree in everything but \<open>skill_type\<close>; two jobs that agree in everything
  but \<open>availability\<close> and the \<open>skill_type\<close> of their skills; two candidates that agree in
  everything but the \<open>skill_type\<close> of their skills.
\<close>

definition skill_type_variant :: "Skill \<Rightarrow> Skill \<Rightarrow> bool" where
  "skill_type_variant s s' = (s' = s\<lparr>skill_type := skill_type s'\<rparr>)"

definition job_variant :: "Job \<Rightarrow> Job \<Rightarrow> bool" where
  "job_variant job job' =
     (list_all2 skill_type_variant (Job.skills job) (Job.skills job') \<and>
      job' = job\<lparr>availability := availability job', Job.skills := Job.skills job'\<rparr>)"

definition candidate_variant :: "Candidate \<Rightarrow> Candidate \<Rightarrow> bool" where
  "candidate_variant candidate candidate' =
     (list_all2 skill_type_variant (Candidate.skills candidate) (Candidate.skills candidate') \<and>
      candidate' = candidate\<lparr>Candidate.skills := Candidate.skills candidate'\<rparr>)"

section \<open>Helper lemmas\<close>

lemmas example_defs = example_job_def example_candidate_def example_candidates_def
  python_skill_def

lemmas score_defs = calculate_matching_score_def exp_score_def exp_try_def int_or_zero_def
  location_salary_score_def salary_score_def salary_overlap_def location_score_def
  career_score_def skill_score_def raw_skill_score_def partial_matches_def full_matches_def
  job_skills_def candidate_skills_def

subsection \<open>Experience\<close>

lemma int_or_zero_value: "py_int v = Inr n \<Longrightarrow> int_or_zero v = Inr n"
  by (cases v) (simp_all add: int_or_zero_def)

lemma exp_try_candidate_fails:
  "int_or_zero (total_experience candidate) = Inl e \<Longrightarrow> exp_try job candidate = Inl e"
  by (simp add: exp_try_def)

lemma exp_try_job_fails:
  "int_or_zero (total_experience candidate) = Inr n \<Longrightarrow>
   int_or_zero (required_experience job) = Inl e \<Longrightarrow> exp_try job candidate = Inl e"
  by (simp add: exp_try_def)

lemma exp_score_caught:
  "exp_try job candidate = Inl e \<Longrightarrow> e \<noteq> OverflowError \<Longrightarrow>
     exp_score job candidate = Inr (- 1.5)"
  by (cases e) (simp_all add: exp_score_def)

lemma exp_score_value: "exp_try job candidate = Inr v \<Longrightarrow> exp_score job candidate = Inr v"
  by (simp add: exp_score_def)


lemma no_overflow_int_or_zero:
  assumes "\<not> int_overflows v"
  shows "(\<exists>n. int_or_zero v = Inr n) \<or> (\<exists>e. int_or_zero v = Inl e \<and> e \<noteq> OverflowError)"
proof (cases "int_or_zero v")
  case (Inl e)
  with assms have "e \<noteq> OverflowError"
    by (auto simp: int_overflows_def int_or_zero_def split: if_splits)
  with Inl show ?thesis by simp
next
  case (Inr n)
  then show ?thesis by simp
qed


lemma exp_score_returns:
  assumes "\<not> int_overflows (total_experience candidate)"
    and "\<not> int_overflows (required_experience job)"
  shows "\<exists>v. exp_score job candidate = Inr v"
proof -
  from no_overflow_int_or_zero [OF assms(1)] show ?thesis
  proof (elim disjE exE conjE)
    fix n assume n: "int_or_zero (total_experience candidate) = Inr n"
    from no_overflow_int_or_zero [OF assms(2)] show ?thesis
    proof (elim disjE exE conjE)
      fix m assume "int_or_zero (required_experience job) = Inr m"
      with n show ?thesis by (simp add: exp_score_def exp_try_def)
    next
      fix e assume "int_or_zero (required_experience job) = Inl e" "e \<noteq> OverflowError"
      with exp_score_caught [OF exp_try_job_fails [OF n]] show ?thesis by blast
    qed
  next
    fix e assume "int_or_zero (total_experience candidate) = Inl e" "e \<noteq> OverflowError"
    with exp_score_caught [OF exp_try_candidate_fails] show ?thesis by blast
  qed
qed


subsection \<open>Skills\<close>

lemma raw_skill_score_eq:
  "raw_skill_score job candidate =
     5 * (full_matches job candidate +
          int (card (fst ` job_skills job \<inter> fst ` candidate_skills candidate)))"
  by (simp add: raw_skill_score_def partial_matches_def)

subsection \<open>Location\<close>

text \<open>
  Between two enumeration members the test for \<^verbatim>\<open>"Hybrid"\<close> never succeeds: the
  location counts 10 for equal members and 0 otherwise.
\<close>

lemma location_score_members:
  assumes "location_type job = PLocationType a"
    and "preferred_location candidate = PLocationType b"
  shows "location_score job candidate = (if a = b then 10 else 0)"
  using assms by (simp add: location_score_def)

subsection \<open>The ranker\<close>

lemma collect_matches_all:
  assumes "\<forall>e\<in>set entities. \<not> isl (scorer e)"
  shows "collect_matches scorer entities matches =
           Inr (matches @ map (\<lambda>e. (e, projr (scorer e))) entities)"
  using assms
proof (induction entities arbitrary: matches)
  case Nil
  show ?case by simp
next
  case (Cons x xs)
  from Cons.prems obtain v where v: "scorer x = Inr v"
    by (cases "scorer x") auto
  from Cons.prems have "\<forall>e\<in>set xs. \<not> isl (scorer e)" by simp
  from Cons.IH [OF this] v show ?case by simp
qed

lemma mset_sort_reverse: "mset (sort_reverse key xs) = mset xs"
  by (simp add: sort_reverse_def)

lemma sorted_sort_reverse: "sorted_wrt (\<lambda>a b. key a \<ge> key b) (sort_reverse key xs)"
proof -
  have "sorted (map key (sort_key key (rev xs)))" by (rule sorted_sort_key)
  then have "sorted_wrt (\<lambda>a b. key a \<le> key b) (sort_key key (rev xs))"
    by (simp add: sorted_wrt_map)
  then show ?thesis by (simp add: sort_reverse_def sorted_wrt_rev)
qed

lemma sort_reverse_stable:
  "filter (\<lambda>x. key x = k) (sort_reverse key xs) = filter (\<lambda>x. key x = k) xs"
proof -
  have "filter (\<lambda>x. key x = k) (sort_reverse key xs) =
          rev (filter (\<lambda>x. key x = k) (sort_key key (rev xs)))"
    by (simp add: sort_reverse_def rev_filter)
  also have "\<dots> = rev (filter (\<lambda>x. key x = k) (rev xs))"
    by (simp only: sort_key_stable)
  also have "\<dots> = filter (\<lambda>x. key x = k) xs"
    by (simp add: rev_filter)
  finally show ?thesis .
qed

lemma rank_all:
  assumes "\<forall>e\<in>set entities. \<not> isl (scorer e)"
  shows "rank scorer entities top_k =
           Inr (slice_to (sort_reverse snd (map (\<lambda>e. (e, projr (scorer e))) entities)) top_k)"
  by (simp add: rank_def collect_matches_all [OF assms])

subsection \<open>Rows on which the scorer returns\<close>

lemma is_int_E: "is_int v \<Longrightarrow> \<exists>n. v = PInt n"
  by (cases v) simp_all

lemma int_range_is_int: "int_range a b \<Longrightarrow> is_int a \<and> is_int b"
  by (cases a; cases b) simp_all

lemma is_nonneg_int_no_overflow: "is_nonneg_int v \<Longrightarrow> \<not> int_overflows v"
  by (cases v) (simp_all add: int_overflows_def)

lemma salary_score_returns:
  assumes "int_salaries job candidate"
  shows "\<exists>s. salary_score job candidate = Inr s"
proof -
  from assms obtain jmin jmax cmin cmax
    where "salary_min job = PInt jmin" "salary_max job = PInt jmax"
      "expected_salary_min candidate = PInt cmin" "expected_salary_max candidate = PInt cmax"
    unfolding int_salaries_def by (metis is_int_E)
  then show ?thesis by (simp add: salary_score_def salary_overlap_def)
qed

lemma score_returns_if:
  assumes "\<not> int_overflows (total_experience candidate)"
    and "\<not> int_overflows (required_experience job)"
    and "int_salaries job candidate"
  shows "\<exists>v. calculate_matching_score job candidate = Inr v"
proof -
  from salary_score_returns [OF assms(3)] obtain s where s: "salary_score job candidate = Inr s"
    by blast
  from exp_score_returns [OF assms(1,2)] obtain es where es: "exp_score job candidate = Inr es"
    by blast
  show ?thesis
    by (simp add: calculate_matching_score_def location_salary_score_def s es)
qed

lemma score_returns:
  assumes "valid_job job" and "valid_candidate candidate"
  shows "\<exists>v. calculate_matching_score job candidate = Inr v"
proof -
  from assms have "int_salaries job candidate"
    unfolding valid_job_def valid_candidate_def int_salaries_def
    using int_range_is_int by blast
  moreover from assms have "\<not> int_overflows (total_experience candidate)"
    and "\<not> int_overflows (required_experience job)"
    unfolding valid_job_def valid_candidate_def
    using is_nonneg_int_no_overflow by blast+
  ultimately show ?thesis using score_returns_if by blast
qed

lemma score_not_isl:
  "valid_job job \<Longrightarrow> valid_candidate candidate \<Longrightarrow>
     \<not> isl (calculate_matching_score job candidate)"
  using score_returns [of job candidate] by auto

subsection \<open>Variants\<close>

lemma skill_type_variant_pair:
  assumes "skill_type_variant s s'"
  shows "(skill_group s', skill_level s') = (skill_group s, skill_level s)"
proof -
  from assms have e: "s' = s\<lparr>skill_type := skill_type s'\<rparr>"
    by (simp add: skill_type_variant_def)
  have "skill_group s' = skill_group (s\<lparr>skill_type := skill_type s'\<rparr>)"
    by (rule arg_cong [OF e])
  moreover have "skill_level s' = skill_level (s\<lparr>skill_type := skill_type s'\<rparr>)"
    by (rule arg_cong [OF e])
  ultimately show ?thesis by simp
qed

lemma variant_skill_pairs:
  assumes "list_all2 skill_type_variant xs ys"
  shows "map (\<lambda>s. (skill_group s, skill_level s)) ys =
         map (\<lambda>s. (skill_group s, skill_level s)) xs"
  using assms by (induction rule: list_all2_induct) (simp_all add: skill_type_variant_pair)

lemma job_variant_fields:
  assumes "job_variant job job'"
  shows "job_skills job' = job_skills job"
    and "required_experience job' = required_experience job"
    and "Job.career_preference job' = Job.career_preference job"
    and "location_type job' = location_type job"
    and "salary_min job' = salary_min job"
    and "salary_max job' = salary_max job"
proof -
  from assms have l: "list_all2 skill_type_variant (Job.skills job) (Job.skills job')"
    and e: "job' = job\<lparr>availability := availability job', Job.skills := Job.skills job'\<rparr>"
    by (simp_all add: job_variant_def)
  show "job_skills job' = job_skills job"
    by (simp only: job_skills_def variant_skill_pairs [OF l])
  show "required_experience job' = required_experience job"
    by (subst e) simp
  show "Job.career_preference job' = Job.career_preference job"
    by (subst e) simp
  show "location_type job' = location_type job"
    by (subst e) simp
  show "salary_min job' = salary_min job"
    by (subst e) simp
  show "salary_max job' = salary_max job"
    by (subst e) simp
qed

lemma candidate_variant_fields:
  assumes "candidate_variant candidate candidate'"
  shows "candidate_skills candidate' = candidate_skills candidate"
    and "total_experience candidate' = total_experience candidate"
    and "Candidate.career_preference candidate' = Candidate.career_preference candidate"
    and "preferred_location candidate' = preferred_location candidate"
    and "expected_salary_min candidate' = expected_salary_min candidate"
    and "expected_salary_max candidate' = expected_salary_max candidate"
proof -
  from assms
  have l: "list_all2 skill_type_variant (Candidate.skills candidate)
             (Candidate.skills candidate')"
    and e: "candidate' = candidate\<lparr>Candidate.skills := Candidate.skills candidate'\<rparr>"
    by (simp_all add: candidate_variant_def)
  show "candidate_skills candidate' = candidate_skills candidate"
    by (simp only: candidate_skills_def variant_skill_pairs [OF l])
  show "total_experience candidate' = total_experience candidate"
    by (subst e) simp
  show "Candidate.career_preference candidate' = Candidate.career_preference candidate"
    by (subst e) simp
  show "preferred_location candidate' = preferred_location candidate"
    by (subst e) simp
  show "expected_salary_min candidate' = expected_salary_min candidate"
    by (subst e) simp
  show "expected_salary_max candidate' = expected_salary_max candidate"
    by (subst e) simp
qed

subsection \<open>Evaluation of the examples\<close>

lemmas parse_defs = parse_int_def parse_unsigned_def max_str_digits_def py_strip_def
  py_isspace_def py_isdigit_def digit_value_def

lemma example_candidates_scores:
  "map (calculate_matching_score example_job) example_candidates = [Inr 5.5, Inr 10, Inr 10]"
  by (simp add: score_defs example_defs)

lemma example_jobs_scores:
  "map (\<lambda>job. calculate_matching_score job example_candidate) example_jobs =
     [Inr 10, Inr 9.5, Inr 5.5, Inr 10, Inr 9.5, Inr 6]"
  by (simp add: score_defs example_defs example_jobs_def)

section \<open>The claims\<close>

text \<open>
  C7. The end-to-end example: the job (3 years, on site, 80000 to 120000, upward mobility,
  Python at ADVANCED) against the candidate (5 years, on site, 90000 to 110000, upward
  mobility, Python at ADVANCED) scores 4.0 for skills, 3.0 for experience, 2.0 for the
  career preference and 1.0 for location and salary: 10.0 in total.
\<close>

theorem end_to_end_example:
  "skill_score example_job example_candidate = 4.0 \<and>
   exp_score example_job example_candidate = Inr 3.0 \<and>
   career_score example_job example_candidate = 2.0 \<and>
   location_salary_score example_job example_candidate = Inr 1.0 \<and>
   calculate_matching_score example_job example_candidate = Inr 10.0"
  by (simp add: score_defs example_defs)

text \<open>
  C1. The claim gives the location 5 points when the two sides differ and one of them is
  \<open>HYBRID\<close>. The scorer tests this with the string \<^verbatim>\<open>"Hybrid"\<close>, which no member of
  \<open>LocationType\<close> equals: a \<open>HYBRID\<close> job against an \<open>ON_SITE\<close> candidate (and the other way
  round) gets 0 points for the location, and with the candidate's salary range disjoint
  from the job's but starting within 20000 of its maximum the combined sub-score is
  \<open>(0 + 5) \<times> 0.05 = 0.25\<close>, not 0.5.
\<close>

theorem hybrid_location_scores_no_points:
  "location_score (example_job\<lparr>location_type := PLocationType HYBRID\<rparr>) example_candidate = 0 \<and>
   location_score example_job
     (example_candidate\<lparr>preferred_location := PLocationType HYBRID\<rparr>) = 0 \<and>
   location_salary_score (example_job\<lparr>location_type := PLocationType HYBRID\<rparr>)
     (example_candidate\<lparr>expected_salary_min := PInt 130000,
        expected_salary_max := PInt 150000\<rparr>) = Inr 0.25"
  by (simp add: score_defs example_defs)




text \<open>
  C3. With \<open>J\<close> and \<open>C\<close> the sets of \<open>(skill_group, skill_level)\<close> pairs of the job's
  and the candidate's skills, the skill sub-score is
  \<open>(|J \<inter> C| \<times> 10 + (|groups J \<inter> groups C| - |J \<inter> C|) \<times> 5) \<times> 0.4\<close>, with no correction
  for a group at several levels. Sharing exactly one pair and no other group gives 4.0;
  sharing one group and no pair gives 2.0.
\<close>

theorem skill_score_spec:
  assumes J: "J = (\<lambda>s. (skill_group s, skill_level s)) ` set (Job.skills job)"
    and C: "C = (\<lambda>s. (skill_group s, skill_level s)) ` set (Candidate.skills candidate)"
  shows "skill_score job candidate =
           real_of_int (int (card (J \<inter> C)) * 10 +
                        (int (card (fst ` J \<inter> fst ` C)) - int (card (J \<inter> C))) * 5) * 0.4 \<and>
         (J \<inter> C = {p} \<and> fst ` J \<inter> fst ` C = {fst p} \<longrightarrow> skill_score job candidate = 4.0) \<and>
         (J \<inter> C = {} \<and> fst ` J \<inter> fst ` C = {g} \<longrightarrow> skill_score job candidate = 2.0)"
proof -
  have JC: "job_skills job = J" "candidate_skills candidate = C"
    by (simp_all add: J C job_skills_def candidate_skills_def)
  have a: "skill_score job candidate =
           real_of_int (int (card (J \<inter> C)) * 10 +
                        (int (card (fst ` J \<inter> fst ` C)) - int (card (J \<inter> C))) * 5) * 0.4"
    by (simp add: skill_score_def raw_skill_score_def partial_matches_def full_matches_def JC)
  show ?thesis unfolding a by simp
qed

text \<open>
  The statement at the example rows (one shared pair), and at a job that requires Python
  at EXPERT against a candidate with Python at BEGINNER.
\<close>

theorem skill_score_spec_witness:
  "{(PStr ''Python'', PSkillLevel ADVANCED)} =
     (\<lambda>s. (skill_group s, skill_level s)) ` set (Job.skills example_job) \<and>
   {(PStr ''Python'', PSkillLevel ADVANCED)} =
     (\<lambda>s. (skill_group s, skill_level s)) ` set (Candidate.skills example_candidate) \<and>
   skill_score example_job example_candidate = 4.0 \<and>
   {(PStr ''Python'', PSkillLevel EXPERT)} =
     (\<lambda>s. (skill_group s, skill_level s)) `
       set (Job.skills (example_job\<lparr>Job.skills := [python_skill EXPERT]\<rparr>)) \<and>
   {(PStr ''Python'', PSkillLevel BEGINNER)} =
     (\<lambda>s. (skill_group s, skill_level s)) `
       set (Candidate.skills (example_candidate\<lparr>Candidate.skills := [python_skill BEGINNER]\<rparr>)) \<and>
   skill_score (example_job\<lparr>Job.skills := [python_skill EXPERT]\<rparr>)
     (example_candidate\<lparr>Candidate.skills := [python_skill BEGINNER]\<rparr>) = 2.0"
proof -
  let ?A = "{(PStr ''Python'', PSkillLevel ADVANCED)}"
  let ?E = "{(PStr ''Python'', PSkillLevel EXPERT)}"
  let ?B = "{(PStr ''Python'', PSkillLevel BEGINNER)}"
  let ?j = "example_job\<lparr>Job.skills := [python_skill EXPERT]\<rparr>"
  let ?c = "example_candidate\<lparr>Candidate.skills := [python_skill BEGINNER]\<rparr>"
  have j1: "?A = (\<lambda>s. (skill_group s, skill_level s)) ` set (Job.skills example_job)"
    by (simp add: example_defs)
  have c1: "?A = (\<lambda>s. (skill_group s, skill_level s)) ` set (Candidate.skills example_candidate)"
    by (simp add: example_defs)
  have j2: "?E = (\<lambda>s. (skill_group s, skill_level s)) ` set (Job.skills ?j)"
    by (simp add: example_defs)
  have c2: "?B = (\<lambda>s. (skill_group s, skill_level s)) ` set (Candidate.skills ?c)"
    by (simp add: example_defs)
  have full: "?A \<inter> ?A = {(PStr ''Python'', PSkillLevel ADVANCED)} \<and>
              fst ` ?A \<inter> fst ` ?A = {fst (PStr ''Python'', PSkillLevel ADVANCED)}"
    by simp
  have part: "?E \<inter> ?B = {} \<and> fst ` ?E \<inter> fst ` ?B = {PStr ''Python''}"
    by simp
  from skill_score_spec [OF j1 c1, of "(PStr ''Python'', PSkillLevel ADVANCED)"] full
  have r1: "skill_score example_job example_candidate = 4.0" by blast
  from skill_score_spec [OF j2 c2, of _ "PStr ''Python''"] part
  have r2: "skill_score ?j ?c = 2.0" by blast
  from j1 c1 j2 c2 r1 r2 show ?thesis by blast
qed

text \<open>
  C4. Each portal's match list is the first five elements of a list \<open>ranked\<close> that holds
  exactly the rows paired with their scores, is in descending order of score, and keeps
  rows of equal score in their input order, whenever the scorer returns for every row; on
  the empty input it is empty. The portals fix the number of matches to five; \<open>rank\<close>,
  of which both lists are the instance at 5, has the same property for every
  \<open>top_k \<ge> 0\<close>, and is empty for \<open>top_k = 0\<close> and on the empty input.
\<close>

theorem rank_sorted_stable_top_k:
  "((\<forall>job\<in>set jobs. \<not> isl (calculate_matching_score job candidate)) \<longrightarrow>
      (\<exists>ranked.
         top_job_matches candidate jobs = Inr (take 5 ranked) \<and>
         mset ranked =
           mset (map (\<lambda>j. (j, projr (calculate_matching_score j candidate))) jobs) \<and>
         sorted_wrt (\<lambda>a b. snd a \<ge> snd b) ranked \<and>
         (\<forall>v. filter (\<lambda>m. snd m = v) ranked =
              filter (\<lambda>m. snd m = v)
                (map (\<lambda>j. (j, projr (calculate_matching_score j candidate))) jobs)))) \<and>
   top_job_matches candidate [] = Inr [] \<and>
   ((\<forall>c\<in>set candidates. \<not> isl (calculate_matching_score job c)) \<longrightarrow>
      (\<exists>ranked.
         top_candidate_matches job candidates = Inr (take 5 ranked) \<and>
         mset ranked =
           mset (map (\<lambda>c. (c, projr (calculate_matching_score job c))) candidates) \<and>
         sorted_wrt (\<lambda>a b. snd a \<ge> snd b) ranked \<and>
         (\<forall>v. filter (\<lambda>m. snd m = v) ranked =
              filter (\<lambda>m. snd m = v)
                (map (\<lambda>c. (c, projr (calculate_matching_score job c))) candidates)))) \<and>
   top_candidate_matches job [] = Inr [] \<and>
   top_job_matches candidate jobs =
     rank (\<lambda>j. calculate_matching_score j candidate) jobs 5 \<and>
   top_candidate_matches job candidates =
     rank (\<lambda>c. calculate_matching_score job c) candidates 5 \<and>
   ((\<forall>e\<in>set entities. \<not> isl (scorer e)) \<and> 0 \<le> top_k \<longrightarrow>
      (\<exists>ranked.
         rank scorer entities top_k = Inr (take (nat top_k) ranked) \<and>
         mset ranked = mset (map (\<lambda>e. (e, projr (scorer e))) entities) \<and>
         sorted_wrt (\<lambda>a b. snd a \<ge> snd b) ranked \<and>
         (\<forall>v. filter (\<lambda>m. snd m = v) ranked =
              filter (\<lambda>m. snd m = v) (map (\<lambda>e. (e, projr (scorer e))) entities))) \<and>
      rank scorer entities 0 = Inr []) \<and>
   rank scorer [] top_k = Inr []"
proof -
  have gen: "\<exists>ranked.
         rank f xs k = Inr (take (nat k) ranked) \<and>
         mset ranked = mset (map (\<lambda>e. (e, projr (f e))) xs) \<and>
         sorted_wrt (\<lambda>a b. snd a \<ge> snd b) ranked \<and>
         (\<forall>v. filter (\<lambda>m. snd m = v) ranked =
              filter (\<lambda>m. snd m = v) (map (\<lambda>e. (e, projr (f e))) xs))"
    if ok: "\<forall>e\<in>set xs. \<not> isl (f e)" and k: "0 \<le> k"
    for f :: "'x \<Rightarrow> py_error + 'y::linorder" and xs k
  proof -
    let ?ms = "map (\<lambda>e. (e, projr (f e))) xs"
    let ?ranked = "sort_reverse snd ?ms"
    have 1: "rank f xs k = Inr (take (nat k) ?ranked)"
      using k by (simp add: rank_all [OF ok] slice_to_def)
    have 2: "mset ?ranked = mset ?ms" by (rule mset_sort_reverse)
    have 3: "sorted_wrt (\<lambda>a b. snd a \<ge> snd b) ?ranked" by (rule sorted_sort_reverse)
    have 4: "\<forall>v. filter (\<lambda>m. snd m = v) ?ranked = filter (\<lambda>m. snd m = v) ?ms"
      by (simp add: sort_reverse_stable)
    from 1 2 3 4 show ?thesis by blast
  qed
  have empty: "rank f [] k = Inr []" for f :: "'x \<Rightarrow> py_error + 'y::linorder" and k
    by (simp add: rank_def slice_to_def sort_reverse_def)
  have zero: "rank f xs 0 = Inr []" if "\<forall>e\<in>set xs. \<not> isl (f e)"
    for f :: "'x \<Rightarrow> py_error + 'y::linorder" and xs
    by (simp add: rank_all [OF that] slice_to_def)
  have a: "(\<forall>job\<in>set jobs. \<not> isl (calculate_matching_score job candidate)) \<longrightarrow>
      (\<exists>ranked.
         top_job_matches candidate jobs = Inr (take 5 ranked) \<and>
         mset ranked =
           mset (map (\<lambda>j. (j, projr (calculate_matching_score j candidate))) jobs) \<and>
         sorted_wrt (\<lambda>a b. snd a \<ge> snd b) ranked \<and>
         (\<forall>v. filter (\<lambda>m. snd m = v) ranked =
              filter (\<lambda>m. snd m = v)
                (map (\<lambda>j. (j, projr (calculate_matching_score j candidate))) jobs)))"
  proof
    assume h: "\<forall>job\<in>set jobs. \<not> isl (calculate_matching_score job candidate)"
    from gen [of jobs "\<lambda>j. calculate_matching_score j candidate" 5, OF h]
    show "\<exists>ranked.
         top_job_matches candidate jobs = Inr (take 5 ranked) \<and>
         mset ranked =
           mset (map (\<lambda>j. (j, projr (calculate_matching_score j candidate))) jobs) \<and>
         sorted_wrt (\<lambda>a b. snd a \<ge> snd b) ranked \<and>
         (\<forall>v. filter (\<lambda>m. snd m = v) ranked =
              filter (\<lambda>m. snd m = v)
                (map (\<lambda>j. (j, projr (calculate_matching_score j candidate))) jobs))"
      by (simp add: top_job_matches_def)
  qed
  have b: "top_job_matches candidate [] = Inr []"
    by (simp add: top_job_matches_def empty)
  have c: "(\<forall>c\<in>set candidates. \<not> isl (calculate_matching_score job c)) \<longrightarrow>
      (\<exists>ranked.
         top_candidate_matches job candidates = Inr (take 5 ranked) \<and>
         mset ranked =
           mset (map (\<lambda>c. (c, projr (calculate_matching_score job c))) candidates) \<and>
         sorted_wrt (\<lambda>a b. snd a \<ge> snd b) ranked \<and>
         (\<forall>v. filter (\<lambda>m. snd m = v) ranked =
              filter (\<lambda>m. snd m = v)
                (map (\<lambda>c. (c, projr (calculate_matching_score job c))) candidates)))"
  proof
    assume h: "\<forall>c\<in>set candidates. \<not> isl (calculate_matching_score job c)"
    from gen [of candidates "\<lambda>c. calculate_matching_score job c" 5, OF h]
    show "\<exists>ranked.
         top_candidate_matches job candidates = Inr (take 5 ranked) \<and>
         mset ranked =
           mset (map (\<lambda>c. (c, projr (calculate_matching_score job c))) candidates) \<and>
         sorted_wrt (\<lambda>a b. snd a \<ge> snd b) ranked \<and>
         (\<forall>v. filter (\<lambda>m. snd m = v) ranked =
              filter (\<lambda>m. snd m = v)
                (map (\<lambda>c. (c, projr (calculate_matching_score job c))) candidates))"
      by (simp add: top_candidate_matches_def)
  qed
  have d: "top_candidate_matches job [] = Inr []"
    by (simp add: top_candidate_matches_def empty)
  have e: "top_job_matches candidate jobs =
     rank (\<lambda>j. calculate_matching_score j candidate) jobs 5"
    by (simp add: top_job_matches_def)
  have f: "top_candidate_matches job candidates =
     rank (\<lambda>c. calculate_matching_score job c) candidates 5"
    by (simp add: top_candidate_matches_def)
  have g: "(\<forall>e\<in>set entities. \<not> isl (scorer e)) \<and> 0 \<le> top_k \<longrightarrow>
      (\<exists>ranked.
         rank scorer entities top_k = Inr (take (nat top_k) ranked) \<and>
         mset ranked = mset (map (\<lambda>e. (e, projr (scorer e))) entities) \<and>
         sorted_wrt (\<lambda>a b. snd a \<ge> snd b) ranked \<and>
         (\<forall>v. filter (\<lambda>m. snd m = v) ranked =
              filter (\<lambda>m. snd m = v) (map (\<lambda>e. (e, projr (scorer e))) entities))) \<and>
      rank scorer entities 0 = Inr []"
    using gen [of entities scorer top_k] zero [of entities scorer] by blast
  have h: "rank scorer [] top_k = Inr []" by (rule empty)
  show ?thesis
    by (intro conjI a b c d e f g h)
qed

text \<open>
  The statement at six example jobs for the example candidate, with the scores 10, 9.5,
  5.5, 10, 9.5 and 6, and at three example candidates for the example job, with the scores
  5.5, 10 and 10. The candidate portal shows the jobs that score 10, then those that
  score 9.5, each pair in its input order, then the job that scores 6, and leaves the
  sixth out; the employer portal shows the two candidates that score 10 in their input
  order, then the one that scores 5.5.
\<close>

theorem rank_sorted_stable_top_k_witness:
  "list_all (\<lambda>j. \<not> isl (calculate_matching_score j example_candidate)) example_jobs \<and>
   list_all (\<lambda>c. \<not> isl (calculate_matching_score example_job c)) example_candidates \<and>
   (0::int) \<le> 2 \<and>
   (\<exists>ranked.
      top_job_matches example_candidate example_jobs = Inr (take 5 ranked) \<and>
      mset ranked =
        mset (map (\<lambda>j. (j, projr (calculate_matching_score j example_candidate))) example_jobs) \<and>
      sorted_wrt (\<lambda>a b. snd a \<ge> snd b) ranked \<and>
      (\<forall>v. filter (\<lambda>m. snd m = v) ranked =
           filter (\<lambda>m. snd m = v)
             (map (\<lambda>j. (j, projr (calculate_matching_score j example_candidate)))
                example_jobs))) \<and>
   (\<exists>ranked.
      top_candidate_matches example_job example_candidates = Inr (take 5 ranked) \<and>
      mset ranked =
        mset (map (\<lambda>c. (c, projr (calculate_matching_score example_job c)))
                example_candidates) \<and>
      sorted_wrt (\<lambda>a b. snd a \<ge> snd b) ranked \<and>
      (\<forall>v. filter (\<lambda>m. snd m = v) ranked =
           filter (\<lambda>m. snd m = v)
             (map (\<lambda>c. (c, projr (calculate_matching_score example_job c)))
                example_candidates))) \<and>
   (\<exists>ranked.
      rank (calculate_matching_score example_job) example_candidates 2 =
        Inr (take (nat 2) ranked) \<and>
      mset ranked =
        mset (map (\<lambda>e. (e, projr (calculate_matching_score example_job e)))
                example_candidates) \<and>
      sorted_wrt (\<lambda>a b. snd a \<ge> snd b) ranked \<and>
      (\<forall>v. filter (\<lambda>m. snd m = v) ranked =
           filter (\<lambda>m. snd m = v)
             (map (\<lambda>e. (e, projr (calculate_matching_score example_job e)))
                example_candidates))) \<and>
   rank (calculate_matching_score example_job) example_candidates 0 = Inr [] \<and>
   top_job_matches example_candidate example_jobs =
     Inr [(example_jobs ! 0, 10), (example_jobs ! 3, 10), (example_jobs ! 1, 9.5),
          (example_jobs ! 4, 9.5), (example_jobs ! 5, 6)] \<and>
   top_candidate_matches example_job example_candidates =
     Inr [(example_candidates ! 1, 10), (example_candidates ! 2, 10),
          (example_candidates ! 0, 5.5)]"
proof -
  have hj: "\<forall>j\<in>set example_jobs. \<not> isl (calculate_matching_score j example_candidate)"
    using example_jobs_scores by (simp add: example_jobs_def)
  have hc: "\<forall>c\<in>set example_candidates. \<not> isl (calculate_matching_score example_job c)"
    using example_candidates_scores by (simp add: example_candidates_def)
  have k: "(0::int) \<le> 2" by simp
  have lj: "list_all (\<lambda>j. \<not> isl (calculate_matching_score j example_candidate)) example_jobs"
    using hj by (simp add: list_all_iff)
  have lc: "list_all (\<lambda>c. \<not> isl (calculate_matching_score example_job c)) example_candidates"
    using hc by (simp add: list_all_iff)
  have tj: "top_job_matches example_candidate example_jobs =
     Inr [(example_jobs ! 0, 10), (example_jobs ! 3, 10), (example_jobs ! 1, 9.5),
          (example_jobs ! 4, 9.5), (example_jobs ! 5, 6)]"
    using example_jobs_scores
    by (simp add: top_job_matches_def rank_def example_jobs_def slice_to_def sort_reverse_def)
  have tc: "top_candidate_matches example_job example_candidates =
     Inr [(example_candidates ! 1, 10), (example_candidates ! 2, 10),
          (example_candidates ! 0, 5.5)]"
    using example_candidates_scores
    by (simp add: top_candidate_matches_def rank_def example_candidates_def
        slice_to_def sort_reverse_def)
  note T = rank_sorted_stable_top_k [where jobs = example_jobs
      and candidate = example_candidate and job = example_job
      and candidates = example_candidates and entities = example_candidates
      and scorer = "calculate_matching_score example_job" and top_k = 2]
  note 1 = T [THEN conjunct1, THEN mp, OF hj]
  note 2 = T [THEN conjunct2, THEN conjunct2, THEN conjunct1, THEN mp, OF hc]
  note 3 = T [THEN conjunct2, THEN conjunct2, THEN conjunct2, THEN conjunct2,
      THEN conjunct2, THEN conjunct2, THEN conjunct1, THEN mp, OF conjI [OF hc k]]
  show ?thesis
    by (intro conjI lj lc k 1 2 conjunct1 [OF 3] conjunct2 [OF 3] tj tc)
qed

text \<open>
  C5. With integer salaries, the salary counts 10 when the ranges overlap (the
  candidate's minimum is at most the job's maximum and the candidate's maximum at least the
  job's minimum), otherwise 5 when the candidate's minimum is at most the job's maximum plus
  20000, otherwise 0; the combined sub-score is (location + salary) \<open>\<times>\<close> 0.05.
\<close>

theorem salary_score_spec:
  assumes "expected_salary_min candidate = PInt cmin"
    and "expected_salary_max candidate = PInt cmax"
    and "salary_min job = PInt jmin"
    and "salary_max job = PInt jmax"
  shows "salary_score job candidate =
           Inr (if cmin \<le> jmax \<and> cmax \<ge> jmin then 10
                else if cmin \<le> jmax + 20000 then 5 else 0) \<and>
         location_salary_score job candidate =
           Inr (real_of_int (location_score job candidate +
                  (if cmin \<le> jmax \<and> cmax \<ge> jmin then 10
                   else if cmin \<le> jmax + 20000 then 5 else 0)) * 0.05)"
  using assms by (simp add: location_salary_score_def salary_score_def salary_overlap_def)

text \<open>
  The statement at the example job (80000 to 120000) and a candidate who expects 130000 to
  150000: no overlap, within 20000.
\<close>

theorem salary_score_spec_witness:
  "expected_salary_min (example_candidate\<lparr>expected_salary_min := PInt 130000,
       expected_salary_max := PInt 150000\<rparr>) = PInt 130000 \<and>
   expected_salary_max (example_candidate\<lparr>expected_salary_min := PInt 130000,
       expected_salary_max := PInt 150000\<rparr>) = PInt 150000 \<and>
   salary_min example_job = PInt 80000 \<and>
   salary_max example_job = PInt 120000 \<and>
   salary_score example_job (example_candidate\<lparr>expected_salary_min := PInt 130000,
       expected_salary_max := PInt 150000\<rparr>) = Inr 5 \<and>
   location_salary_score example_job (example_candidate\<lparr>expected_salary_min := PInt 130000,
       expected_salary_max := PInt 150000\<rparr>) = Inr 0.75"
proof -
  let ?c = "example_candidate\<lparr>expected_salary_min := PInt 130000,
       expected_salary_max := PInt 150000\<rparr>"
  have 1: "expected_salary_min ?c = PInt 130000" by simp
  have 2: "expected_salary_max ?c = PInt 150000" by simp
  have 3: "salary_min example_job = PInt 80000" by (simp add: example_job_def)
  have 4: "salary_max example_job = PInt 120000" by (simp add: example_job_def)
  have 5: "location_score example_job ?c = 10"
    by (simp add: location_score_def example_defs)
  from salary_score_spec [OF 1 2 3 4] 1 2 3 4 show ?thesis
    by (simp add: 5)
qed

text \<open>
  C6. When \<^verbatim>\<open>int\<close> converts both experience values, the experience sub-score is
  \<open>10 \<times> 0.3 = 3.0\<close> if the candidate's value is at least the job's, and
  \<open>-5 \<times> 0.3 = -1.5\<close> otherwise.
\<close>

theorem exp_score_numeric:
  assumes "py_int (total_experience candidate) = Inr candidate_exp"
    and "py_int (required_experience job) = Inr job_exp"
  shows "exp_score job candidate = Inr (if candidate_exp \<ge> job_exp then 3.0 else - 1.5)"
  using assms by (simp add: exp_score_def exp_try_def int_or_zero_value)

text \<open>
  The statement at 5 years against 3 required, at 2 years against 3 required, and at the
  string \<^verbatim>\<open>" 7"\<close> against 3 required.
\<close>

theorem exp_score_numeric_witness:
  "py_int (total_experience example_candidate) = Inr 5 \<and>
   py_int (required_experience example_job) = Inr 3 \<and>
   exp_score example_job example_candidate = Inr 3.0 \<and>
   py_int (total_experience (example_candidate\<lparr>total_experience := PInt 2\<rparr>)) = Inr 2 \<and>
   exp_score example_job (example_candidate\<lparr>total_experience := PInt 2\<rparr>) = Inr (- 1.5) \<and>
   py_int (total_experience (example_candidate\<lparr>total_experience := PStr '' 7''\<rparr>)) = Inr 7 \<and>
   exp_score example_job (example_candidate\<lparr>total_experience := PStr '' 7''\<rparr>) = Inr 3.0"
proof -
  have 1: "py_int (total_experience example_candidate) = Inr 5"
    by (simp add: example_defs)
  have 2: "py_int (required_experience example_job) = Inr 3"
    by (simp add: example_defs)
  have 3: "py_int (total_experience (example_candidate\<lparr>total_experience := PInt 2\<rparr>)) = Inr 2"
    by simp
  have 4: "py_int (total_experience (example_candidate\<lparr>total_experience := PStr '' 7''\<rparr>)) = Inr 7"
    by (simp add: parse_defs)
  from exp_score_numeric [OF 1 2] exp_score_numeric [OF 3 2] exp_score_numeric [OF 4 2]
    1 2 3 4
  show ?thesis by simp
qed

text \<open>
  C8. On rows of the documented input domain the scorer returns a value, and so do the
  ranker (for every \<open>top_k\<close>) and the two portals' match lists.
\<close>

theorem no_exception_on_valid_inputs:
  "(valid_job job \<and> valid_candidate candidate \<longrightarrow>
      (\<exists>v. calculate_matching_score job candidate = Inr v)) \<and>
   (valid_job job \<and> list_all valid_candidate candidates \<longrightarrow>
      (\<exists>r. rank (\<lambda>c. calculate_matching_score job c) candidates top_k = Inr r) \<and>
      (\<exists>r. top_candidate_matches job candidates = Inr r)) \<and>
   (valid_candidate candidate \<and> list_all valid_job jobs \<longrightarrow>
      (\<exists>r. rank (\<lambda>j. calculate_matching_score j candidate) jobs top_k = Inr r) \<and>
      (\<exists>r. top_job_matches candidate jobs = Inr r))"
proof -
  have a: "valid_job job \<and> valid_candidate candidate \<longrightarrow>
      (\<exists>v. calculate_matching_score job candidate = Inr v)"
    using score_returns by blast
  have b: "valid_job job \<and> list_all valid_candidate candidates \<longrightarrow>
      (\<exists>r. rank (\<lambda>c. calculate_matching_score job c) candidates top_k = Inr r) \<and>
      (\<exists>r. top_candidate_matches job candidates = Inr r)"
  proof
    assume h: "valid_job job \<and> list_all valid_candidate candidates"
    then have "\<forall>c\<in>set candidates. \<not> isl (calculate_matching_score job c)"
      by (simp add: list_all_iff score_not_isl)
    then show "(\<exists>r. rank (\<lambda>c. calculate_matching_score job c) candidates top_k = Inr r) \<and>
      (\<exists>r. top_candidate_matches job candidates = Inr r)"
      by (simp add: top_candidate_matches_def rank_all)
  qed
  have c: "valid_candidate candidate \<and> list_all valid_job jobs \<longrightarrow>
      (\<exists>r. rank (\<lambda>j. calculate_matching_score j candidate) jobs top_k = Inr r) \<and>
      (\<exists>r. top_job_matches candidate jobs = Inr r)"
  proof
    assume h: "valid_candidate candidate \<and> list_all valid_job jobs"
    then have "\<forall>j\<in>set jobs. \<not> isl (calculate_matching_score j candidate)"
      by (simp add: list_all_iff score_not_isl)
    then show "(\<exists>r. rank (\<lambda>j. calculate_matching_score j candidate) jobs top_k = Inr r) \<and>
      (\<exists>r. top_job_matches candidate jobs = Inr r)"
      by (simp add: top_job_matches_def rank_all)
  qed
  from a b c show ?thesis by blast
qed

text \<open>
  The statement at the example rows.
\<close>

theorem no_exception_on_valid_inputs_witness:
  "valid_job example_job \<and> valid_candidate example_candidate \<and>
   list_all valid_candidate example_candidates \<and>
   list_all valid_job [example_job, example_job\<lparr>location_type := PLocationType HYBRID\<rparr>] \<and>
   (\<exists>v. calculate_matching_score example_job example_candidate = Inr v) \<and>
   (\<exists>r. rank (\<lambda>c. calculate_matching_score example_job c) example_candidates 2 = Inr r) \<and>
   (\<exists>r. top_candidate_matches example_job example_candidates = Inr r) \<and>
   (\<exists>r. rank (\<lambda>j. calculate_matching_score j example_candidate)
          [example_job, example_job\<lparr>location_type := PLocationType HYBRID\<rparr>] 2 = Inr r) \<and>
   (\<exists>r. top_job_matches example_candidate
          [example_job, example_job\<lparr>location_type := PLocationType HYBRID\<rparr>] = Inr r)"
proof -
  have 1: "valid_job example_job"
    by (simp add: valid_job_def valid_skill_def example_defs)
  have 2: "valid_candidate example_candidate"
    by (simp add: valid_candidate_def valid_skill_def example_defs)
  have 3: "list_all valid_candidate example_candidates"
    by (simp add: valid_candidate_def valid_skill_def example_defs)
  have 4: "list_all valid_job [example_job, example_job\<lparr>location_type := PLocationType HYBRID\<rparr>]"
    by (simp add: valid_job_def valid_skill_def example_defs)
  from no_exception_on_valid_inputs [of example_job example_candidate example_candidates 2
      "[example_job, example_job\<lparr>location_type := PLocationType HYBRID\<rparr>]"] 1 2 3 4
  show ?thesis by blast
qed

text \<open>
  C9. Two runs of the scorer on jobs that differ only in \<open>availability\<close> and in the
  \<open>skill_type\<close> of their skills, and candidates that differ only in the \<open>skill_type\<close>
  of their skills, return the same result.
\<close>

theorem score_ignores_skill_type_and_availability:
  assumes "job_variant job job'" and "candidate_variant candidate candidate'"
  shows "calculate_matching_score job' candidate' = calculate_matching_score job candidate"
  unfolding calculate_matching_score_def exp_score_def exp_try_def
    location_salary_score_def salary_score_def salary_overlap_def location_score_def
    career_score_def skill_score_def raw_skill_score_def partial_matches_def full_matches_def
    job_variant_fields [OF assms(1)] candidate_variant_fields [OF assms(2)]
  by (rule refl)

text \<open>
  The statement at the example rows, with the availability and the skill types changed.
\<close>

theorem score_ignores_skill_type_and_availability_witness:
  "job_variant example_job
     (example_job\<lparr>availability := PAvailability WITHIN_3_MONTHS,
        Job.skills := [(python_skill ADVANCED)\<lparr>skill_type := PStr ''Language''\<rparr>]\<rparr>) \<and>
   candidate_variant example_candidate
     (example_candidate\<lparr>Candidate.skills := [(python_skill ADVANCED)\<lparr>skill_type := PNone\<rparr>]\<rparr>) \<and>
   calculate_matching_score
     (example_job\<lparr>availability := PAvailability WITHIN_3_MONTHS,
        Job.skills := [(python_skill ADVANCED)\<lparr>skill_type := PStr ''Language''\<rparr>]\<rparr>)
     (example_candidate\<lparr>Candidate.skills := [(python_skill ADVANCED)\<lparr>skill_type := PNone\<rparr>]\<rparr>) =
   calculate_matching_score example_job example_candidate"
proof -
  have 1: "job_variant example_job
     (example_job\<lparr>availability := PAvailability WITHIN_3_MONTHS,
        Job.skills := [(python_skill ADVANCED)\<lparr>skill_type := PStr ''Language''\<rparr>]\<rparr>)"
    by (simp add: job_variant_def skill_type_variant_def example_defs)
  have 2: "candidate_variant example_candidate
     (example_candidate\<lparr>Candidate.skills := [(python_skill ADVANCED)\<lparr>skill_type := PNone\<rparr>]\<rparr>)"
    by (simp add: candidate_variant_def skill_type_variant_def example_defs)
  from score_ignores_skill_type_and_availability [OF 1 2] 1 2 show ?thesis by blast
qed

text \<open>
  C10. The raw skill score is \<open>5 \<times> (full_matches + |groups J \<inter> groups C|)\<close>, hence
  not negative, and so is the skill sub-score; \<open>partial_matches\<close> itself is negative when
  a group is matched exactly at two levels.
\<close>

theorem raw_skill_score_nonneg:
  "raw_skill_score job candidate =
     5 * (full_matches job candidate +
          int (card (fst ` job_skills job \<inter> fst ` candidate_skills candidate))) \<and>
   0 \<le> raw_skill_score job candidate \<and>
   0 \<le> skill_score job candidate \<and>
   partial_matches (example_job\<lparr>Job.skills := [python_skill ADVANCED, python_skill EXPERT]\<rparr>)
     (example_candidate\<lparr>Candidate.skills := [python_skill ADVANCED, python_skill EXPERT]\<rparr>) = - 1"
proof -
  have a: "raw_skill_score job candidate =
     5 * (full_matches job candidate +
          int (card (fst ` job_skills job \<inter> fst ` candidate_skills candidate)))"
    by (rule raw_skill_score_eq)
  have b: "0 \<le> raw_skill_score job candidate"
    unfolding a by (simp add: full_matches_def)
  have c: "0 \<le> skill_score job candidate"
    using b by (simp add: skill_score_def)
  have d: "partial_matches (example_job\<lparr>Job.skills := [python_skill ADVANCED, python_skill EXPERT]\<rparr>)
     (example_candidate\<lparr>Candidate.skills := [python_skill ADVANCED, python_skill EXPERT]\<rparr>) = - 1"
    by (simp add: score_defs example_defs)
  from a b c d show ?thesis by blast
qed

end
